theory Spec2Isabelle
  imports Main "HOL-Library.Sublist"
begin

section \<open>Text primitives of the host language\<close>

text \<open>
  Text values are lists of characters; a character stands for a code point below 256.
  The functions of this section are the string methods the pipelines call.
\<close>

definition code :: "char \<Rightarrow> nat" where
  "code c = of_char c"

text \<open>\<^verbatim>\<open>str.lower()\<close>: A-Z and the upper-case letters of the Latin-1 block move up by 32.\<close>

definition lower_char :: "char \<Rightarrow> char" where
  "lower_char c =
     (if (65 \<le> code c \<and> code c \<le> 90) \<or> (192 \<le> code c \<and> code c \<le> 222 \<and> code c \<noteq> 215)
      then char_of (code c + 32) else c)"

definition lower :: "string \<Rightarrow> string" where
  "lower s = map lower_char s"

text \<open>\<^verbatim>\<open>str.strip()\<close> without argument removes white space at both ends.\<close>

definition is_space :: "char \<Rightarrow> bool" where
  "is_space c =
     ((9 \<le> code c \<and> code c \<le> 13) \<or> (28 \<le> code c \<and> code c \<le> 32) \<or> code c = 133 \<or> code c = 160)"

definition lstrip_by :: "(char \<Rightarrow> bool) \<Rightarrow> string \<Rightarrow> string" where
  "lstrip_by p s = dropWhile p s"

definition rstrip_by :: "(char \<Rightarrow> bool) \<Rightarrow> string \<Rightarrow> string" where
  "rstrip_by p s = rev (dropWhile p (rev s))"

definition strip :: "string \<Rightarrow> string" where
  "strip s = rstrip_by is_space (lstrip_by is_space s)"

text \<open>\<^verbatim>\<open>s.lstrip(chars)\<close>, \<^verbatim>\<open>s.rstrip(chars)\<close>, \<^verbatim>\<open>s.strip(chars)\<close>: the argument is a set of characters.\<close>

definition lstrip_chars :: "string \<Rightarrow> string \<Rightarrow> string" where
  "lstrip_chars chars s = lstrip_by (\<lambda>c. c \<in> set chars) s"

definition rstrip_chars :: "string \<Rightarrow> string \<Rightarrow> string" where
  "rstrip_chars chars s = rstrip_by (\<lambda>c. c \<in> set chars) s"

definition strip_chars :: "string \<Rightarrow> string \<Rightarrow> string" where
  "strip_chars chars s = rstrip_chars chars (lstrip_chars chars s)"

text \<open>\<^verbatim>\<open>needle in haystack\<close> on two strings.\<close>

fun contains :: "string \<Rightarrow> string \<Rightarrow> bool" where
  "contains [] needle = (needle = [])"
| "contains (c # cs) needle = (if prefix needle (c # cs) then True else contains cs needle)"

section \<open>Vector-storage namespace (custom\_tools.py)\<close>

text \<open>
  \<^verbatim>\<open>re.sub(r'[^a-zA-Z0-9_-]', '_', company_name.lower()).strip('_')\<close>:
  every character outside the class is replaced, one for one, then underscores are
  stripped at both ends.
\<close>

definition in_namespace_class :: "char \<Rightarrow> bool" where
  "in_namespace_class c =
     ((97 \<le> code c \<and> code c \<le> 122) \<or> (65 \<le> code c \<and> code c \<le> 90) \<or>
      (48 \<le> code c \<and> code c \<le> 57) \<or> c = CHR ''_'' \<or> c = CHR ''-'')"

fun re_sub_namespace :: "string \<Rightarrow> string" where
  "re_sub_namespace [] = []"
| "re_sub_namespace (c # cs) =
     (if in_namespace_class c then c else CHR ''_'') # re_sub_namespace cs"

definition store_namespace :: "string \<Rightarrow> string" where
  "store_namespace company_name = strip_chars ''_'' (re_sub_namespace (lower company_name))"

text \<open>\<^verbatim>\<open>search_pinecone\<close> derives the namespace the same way when a filter is given.\<close>

definition search_namespace :: "string \<Rightarrow> string" where
  "search_namespace company_filter =
     (if company_filter \<noteq> [] then strip_chars ''_'' (re_sub_namespace (lower company_filter)) else [])"

text \<open>The derivation as the interface description words it: lower-case, then every
  character that is not a letter or digit becomes an underscore.\<close>

definition is_alnum :: "char \<Rightarrow> bool" where
  "is_alnum c =
     ((97 \<le> code c \<and> code c \<le> 122) \<or> (65 \<le> code c \<and> code c \<le> 90) \<or> (48 \<le> code c \<and> code c \<le> 57))"

definition described_namespace :: "string \<Rightarrow> string" where
  "described_namespace ident = map (\<lambda>c. if is_alnum c then c else CHR ''_'') (lower ident)"

section \<open>Structured values and the JSON library\<close>

text \<open>
  The values \<^verbatim>\<open>json.loads\<close> returns and \<^verbatim>\<open>json.dumps\<close> accepts. A dictionary is
  an association list in insertion order with distinct keys.

  The library itself is outside the repository. Every function that calls it takes the
  decoder as a parameter \<open>loads :: string \<Rightarrow> json option\<close> (\<open>None\<close> is
  \<^verbatim>\<open>JSONDecodeError\<close>) and the encoder as a parameter \<open>dumps :: json \<Rightarrow> string\<close>.
\<close>

datatype json =
    JNull
  | JBool bool
  | JInt int
  | JStr string
  | JArr "json list"
  | JObj "(string \<times> json) list"

text \<open>Truth value of a Python object (\<^verbatim>\<open>if x\<close>, \<^verbatim>\<open>not x\<close>).\<close>

fun truthy :: "json \<Rightarrow> bool" where
  "truthy JNull = False"
| "truthy (JBool b) = b"
| "truthy (JInt n) = (n \<noteq> 0)"
| "truthy (JStr s) = (s \<noteq> [])"
| "truthy (JArr xs) = (xs \<noteq> [])"
| "truthy (JObj kvs) = (kvs \<noteq> [])"

datatype py_error = AttributeError | TypeError | IndexError

text \<open>\<^verbatim>\<open>d.get(key, default)\<close>: only a dictionary has the method.\<close>

fun dict_get :: "json \<Rightarrow> string \<Rightarrow> json \<Rightarrow> py_error + json" where
  "dict_get (JObj kvs) k d = Inr (case map_of kvs k of None \<Rightarrow> d | Some v \<Rightarrow> v)"
| "dict_get _ k d = Inl AttributeError"

text \<open>\<^verbatim>\<open>for x in v\<close>: a list gives its elements, a dictionary its keys, a string its
  characters; nothing else is iterable.\<close>

fun py_iter :: "json \<Rightarrow> py_error + json list" where
  "py_iter (JArr xs) = Inr xs"
| "py_iter (JObj kvs) = Inr (map (\<lambda>kv. JStr (fst kv)) kvs)"
| "py_iter (JStr s) = Inr (map (\<lambda>c. JStr [c]) s)"
| "py_iter _ = Inl TypeError"

text \<open>\<^verbatim>\<open>key in v\<close> for a string key.\<close>

fun py_in :: "string \<Rightarrow> json \<Rightarrow> py_error + bool" where
  "py_in k (JObj kvs) = Inr (k \<in> set (map fst kvs))"
| "py_in k (JArr xs) = Inr (JStr k \<in> set xs)"
| "py_in k (JStr s) = Inr (contains s k)"
| "py_in k _ = Inl TypeError"

subsection \<open>A reference codec for running examples\<close>

text \<open>
  \<open>json_loads\<close>, \<open>json_dumps\<close> and \<open>json_dumps_indent2\<close> follow the library on the part
  of JSON without fractions and exponents: numbers are integers, and the decoder
  answers \<open>None\<close> for a number written with a fraction or an exponent. They
  instantiate the \<open>loads\<close> and \<open>dumps\<close> parameters on concrete inputs.
\<close>

definition json_ws :: "char \<Rightarrow> bool" where
  "json_ws c = (c = CHR '' '' \<or> c = CHR 0x09 \<or> c = CHR 0x0A \<or> c = CHR 0x0D)"

definition skip_ws :: "string \<Rightarrow> string" where
  "skip_ws s = dropWhile json_ws s"

definition is_digit :: "char \<Rightarrow> bool" where
  "is_digit c = (48 \<le> code c \<and> code c \<le> 57)"

definition digit_val :: "char \<Rightarrow> nat" where
  "digit_val c = code c - 48"

definition nat_of_digits :: "string \<Rightarrow> nat" where
  "nat_of_digits ds = foldl (\<lambda>acc c. 10 * acc + digit_val c) 0 ds"

definition hex_val :: "char \<Rightarrow> nat option" where
  "hex_val c =
     (if 48 \<le> code c \<and> code c \<le> 57 then Some (code c - 48)
      else if 97 \<le> code c \<and> code c \<le> 102 then Some (code c - 87)
      else if 65 \<le> code c \<and> code c \<le> 70 then Some (code c - 55)
      else None)"

text \<open>\<^verbatim>\<open>\uXXXX\<close>: four hexadecimal digits; code points from 256 on have no character here.\<close>

fun unicode_escape :: "string \<Rightarrow> (char \<times> string) option" where
  "unicode_escape (a # b # c # d # rest) =
     (case (hex_val a, hex_val b, hex_val c, hex_val d) of
        (Some x3, Some x2, Some x1, Some x0) \<Rightarrow>
          (if x3 = 0 \<and> x2 = 0 then Some (char_of (16 * x1 + x0), rest) else None)
      | _ \<Rightarrow> None)"
| "unicode_escape _ = None"

definition simple_escape :: "char \<Rightarrow> char option" where
  "simple_escape e =
     (if e = CHR 0x22 then Some (CHR 0x22)
      else if e = CHR 0x5C then Some (CHR 0x5C)
      else if e = CHR ''/'' then Some (CHR ''/'')
      else if e = CHR ''b'' then Some (CHR 0x08)
      else if e = CHR ''f'' then Some (CHR 0x0C)
      else if e = CHR ''n'' then Some (CHR 0x0A)
      else if e = CHR ''r'' then Some (CHR 0x0D)
      else if e = CHR ''t'' then Some (CHR 0x09)
      else None)"

text \<open>The characters of a string literal after its opening quote, up to the closing one.\<close>

fun scan_string :: "string \<Rightarrow> string \<Rightarrow> (string \<times> string) option" where
  "scan_string acc [] = None"
| "scan_string acc [c] = (if c = CHR 0x22 then Some (acc, []) else None)"
| "scan_string acc (c # e # cs) =
     (if c = CHR 0x22 then Some (acc, e # cs)
      else if c = CHR 0x5C then
        (if e = CHR ''u'' then
           (case unicode_escape cs of
              None \<Rightarrow> None
            | Some (ch, rest) \<Rightarrow> (if length rest < length cs then scan_string (acc @ [ch]) rest else None))
         else (case simple_escape e of None \<Rightarrow> None | Some ch \<Rightarrow> scan_string (acc @ [ch]) cs))
      else if code c < 32 then None
      else scan_string (acc @ [c]) (e # cs))"

text \<open>An integer literal: an optional minus sign, then \<open>0\<close> or digits without a leading zero.\<close>

definition scan_nat :: "string \<Rightarrow> (nat \<times> string) option" where
  "scan_nat s =
     (case s of
        [] \<Rightarrow> None
      | c # cs \<Rightarrow>
          if \<not> is_digit c then None
          else if c = CHR ''0'' then Some (0, cs)
          else Some (nat_of_digits (takeWhile is_digit s), dropWhile is_digit s))"

definition starts_fraction :: "string \<Rightarrow> bool" where
  "starts_fraction s = (case s of [] \<Rightarrow> False | c # _ \<Rightarrow> c = CHR ''.'' \<or> c = CHR ''e'' \<or> c = CHR ''E'')"

definition scan_number :: "string \<Rightarrow> (json \<times> string) option" where
  "scan_number s =
     (case s of
        [] \<Rightarrow> None
      | c # cs \<Rightarrow>
          (case (if c = CHR ''-'' then scan_nat cs else scan_nat s) of
             None \<Rightarrow> None
           | Some (n, rest) \<Rightarrow>
               if starts_fraction rest then None
               else Some (JInt (if c = CHR ''-'' then - int n else int n), rest)))"

text \<open>Storing a key that is already present keeps its place and replaces the value.\<close>

fun dict_put :: "(string \<times> json) list \<Rightarrow> string \<Rightarrow> json \<Rightarrow> (string \<times> json) list" where
  "dict_put [] k v = [(k, v)]"
| "dict_put ((k', v') # kvs) k v = (if k' = k then (k, v) # kvs else (k', v') # dict_put kvs k v)"

text \<open>
  The value at the head of the text, with the text after it. The first argument bounds
  the number of nested calls; \<open>json_loads\<close> starts with more than the length of the text.
\<close>

fun parse_value :: "nat \<Rightarrow> string \<Rightarrow> (json \<times> string) option"
  and parse_elements :: "nat \<Rightarrow> json list \<Rightarrow> string \<Rightarrow> (json \<times> string) option"
  and parse_members :: "nat \<Rightarrow> (string \<times> json) list \<Rightarrow> string \<Rightarrow> (json \<times> string) option"
where
  "parse_value 0 s = None"
| "parse_value (Suc n) s =
     (case s of
        [] \<Rightarrow> None
      | c # cs \<Rightarrow>
          if c = CHR 0x22 then
            (case scan_string [] cs of None \<Rightarrow> None | Some (str, rest) \<Rightarrow> Some (JStr str, rest))
          else if c = CHR ''{'' then
            (case skip_ws cs of
               [] \<Rightarrow> None
             | d # ds \<Rightarrow> if d = CHR ''}'' then Some (JObj [], ds) else parse_members n [] (d # ds))
          else if c = CHR ''['' then
            (case skip_ws cs of
               [] \<Rightarrow> None
             | d # ds \<Rightarrow> if d = CHR '']'' then Some (JArr [], ds) else parse_elements n [] (d # ds))
          else if prefix ''null'' s then Some (JNull, drop 4 s)
          else if prefix ''true'' s then Some (JBool True, drop 4 s)
          else if prefix ''false'' s then Some (JBool False, drop 5 s)
          else scan_number s)"
| "parse_elements 0 acc s = None"
| "parse_elements (Suc n) acc s =
     (case parse_value n s of
        None \<Rightarrow> None
      | Some (v, rest) \<Rightarrow>
          (case skip_ws rest of
             [] \<Rightarrow> None
           | d # ds \<Rightarrow>
               if d = CHR '','' then parse_elements n (acc @ [v]) (skip_ws ds)
               else if d = CHR '']'' then Some (JArr (acc @ [v]), ds)
               else None))"
| "parse_members 0 acc s = None"
| "parse_members (Suc n) acc s =
     (case s of
        [] \<Rightarrow> None
      | c # cs \<Rightarrow>
          if c \<noteq> CHR 0x22 then None
          else
            (case scan_string [] cs of
               None \<Rightarrow> None
             | Some (k, rest) \<Rightarrow>
                 (case skip_ws rest of
                    [] \<Rightarrow> None
                  | d # ds \<Rightarrow>
                      if d \<noteq> CHR '':'' then None
                      else
                        (case parse_value n (skip_ws ds) of
                           None \<Rightarrow> None
                         | Some (v, rest') \<Rightarrow>
                             (case skip_ws rest' of
                                [] \<Rightarrow> None
                              | e # es \<Rightarrow>
                                  if e = CHR '','' then parse_members n (dict_put acc k v) (skip_ws es)
                                  else if e = CHR ''}'' then Some (JObj (dict_put acc k v), es)
                                  else None)))))"

definition json_loads :: "string \<Rightarrow> json option" where
  "json_loads s =
     (case parse_value (Suc (length s)) (skip_ws s) of
        None \<Rightarrow> None
      | Some (v, rest) \<Rightarrow> if skip_ws rest = [] then Some v else None)"

text \<open>Decimal rendering of an integer (\<^verbatim>\<open>str(n)\<close>).\<close>

fun str_nat :: "nat \<Rightarrow> string" where
  "str_nat n = (if n < 10 then [''0123456789'' ! n] else str_nat (n div 10) @ [''0123456789'' ! (n mod 10)])"

definition str_int :: "int \<Rightarrow> string" where
  "str_int i = (if i < 0 then CHR ''-'' # str_nat (nat (- i)) else str_nat (nat i))"

definition hex_digit :: "nat \<Rightarrow> char" where
  "hex_digit n = ''0123456789abcdef'' ! n"

text \<open>String literals are written with \<^verbatim>\<open>ensure_ascii\<close>: quotes, backslashes, control
  characters and everything beyond ASCII are escaped.\<close>

definition escape_char :: "char \<Rightarrow> string" where
  "escape_char c =
     (if c = CHR 0x22 then [CHR 0x5C, CHR 0x22]
      else if c = CHR 0x5C then [CHR 0x5C, CHR 0x5C]
      else if c = CHR 0x0A then [CHR 0x5C, CHR ''n'']
      else if c = CHR 0x0D then [CHR 0x5C, CHR ''r'']
      else if c = CHR 0x09 then [CHR 0x5C, CHR ''t'']
      else if c = CHR 0x08 then [CHR 0x5C, CHR ''b'']
      else if c = CHR 0x0C then [CHR 0x5C, CHR ''f'']
      else if code c < 32 \<or> 127 < code c then
        [CHR 0x5C, CHR ''u'', CHR ''0'', CHR ''0'', hex_digit (code c div 16), hex_digit (code c mod 16)]
      else [c])"

definition dump_string :: "string \<Rightarrow> string" where
  "dump_string s = CHR 0x22 # concat (map escape_char s) @ [CHR 0x22]"

fun join :: "string \<Rightarrow> string list \<Rightarrow> string" where
  "join sep [] = []"
| "join sep [x] = x"
| "join sep (x # y # ys) = x @ sep @ join sep (y # ys)"

text \<open>\<^verbatim>\<open>json.dumps(v)\<close>: one line, items separated by a comma and a space.\<close>

fun json_dumps :: "json \<Rightarrow> string"
  and dumps_items :: "json list \<Rightarrow> string list"
  and dumps_members :: "(string \<times> json) list \<Rightarrow> string list"
where
  "json_dumps JNull = ''null''"
| "json_dumps (JBool b) = (if b then ''true'' else ''false'')"
| "json_dumps (JInt i) = str_int i"
| "json_dumps (JStr s) = dump_string s"
| "json_dumps (JArr xs) = ''['' @ join '', '' (dumps_items xs) @ '']''"
| "json_dumps (JObj kvs) = ''{'' @ join '', '' (dumps_members kvs) @ ''}''"
| "dumps_items [] = []"
| "dumps_items (x # xs) = json_dumps x # dumps_items xs"
| "dumps_members [] = []"
| "dumps_members (kv # kvs) = (dump_string (fst kv) @ '': '' @ json_dumps (snd kv)) # dumps_members kvs"

text \<open>\<^verbatim>\<open>json.dumps(v, indent=2)\<close>: one item a line, indented by two spaces a level; the
  first argument is the current level.\<close>

definition newline_indent :: "nat \<Rightarrow> string" where
  "newline_indent level = CHR 0x0A # replicate (2 * level) (CHR '' '')"

fun dumps_indent :: "nat \<Rightarrow> json \<Rightarrow> string"
  and indent_items :: "nat \<Rightarrow> json list \<Rightarrow> string list"
  and indent_members :: "nat \<Rightarrow> (string \<times> json) list \<Rightarrow> string list"
where
  "dumps_indent level JNull = ''null''"
| "dumps_indent level (JBool b) = (if b then ''true'' else ''false'')"
| "dumps_indent level (JInt i) = str_int i"
| "dumps_indent level (JStr s) = dump_string s"
| "dumps_indent level (JArr xs) =
     (if xs = [] then ''[]''
      else ''['' @ newline_indent (Suc level)
           @ join ('','' @ newline_indent (Suc level)) (indent_items (Suc level) xs)
           @ newline_indent level @ '']'')"
| "dumps_indent level (JObj kvs) =
     (if kvs = [] then ''{}''
      else ''{'' @ newline_indent (Suc level)
           @ join ('','' @ newline_indent (Suc level)) (indent_members (Suc level) kvs)
           @ newline_indent level @ ''}'')"
| "indent_items level [] = []"
| "indent_items level (x # xs) = dumps_indent level x # indent_items level xs"
| "indent_members level [] = []"
| "indent_members level (kv # kvs) =
     (dump_string (fst kv) @ '': '' @ dumps_indent level (snd kv)) # indent_members level kvs"

definition json_dumps_indent2 :: "json \<Rightarrow> string" where
  "json_dumps_indent2 v = dumps_indent 0 v"

section \<open>Message-envelope parser (company\_profiler)\<close>

definition a2ui_delimiter :: string where
  "a2ui_delimiter = ''---a2ui_JSON---''"

text \<open>
  \<^verbatim>\<open>text.split(sep)\<close> for a non-empty separator: the text is cut at every occurrence of
  the separator, found from left to right; \<open>cur\<close> is the piece being collected.
\<close>

function split_from :: "string \<Rightarrow> string \<Rightarrow> string \<Rightarrow> string list" where
  "split_from sep cur [] = [cur]"
| "split_from sep cur (c # cs) =
     (if sep \<noteq> [] \<and> prefix sep (c # cs)
      then cur # split_from sep [] (drop (length sep) (c # cs))
      else split_from sep (cur @ [c]) cs)"
  by pat_completeness auto
termination
  by (relation "measure (\<lambda>(sep, cur, s). length s)") auto

definition split_text :: "string \<Rightarrow> string \<Rightarrow> string list" where
  "split_text sep text = split_from sep [] text"

text \<open>
  \<^verbatim>\<open>re.search(r'\{[\s\S]*\}', part)\<close>. The class \<^verbatim>\<open>[\s\S]\<close> accepts every character and
  the star is greedy: \<open>greedy_close\<close> is the longest run of characters that ends with a
  closing brace, \<open>match_object_at\<close> the match that starts at the head of the text, and the
  search tries the start positions from left to right.
\<close>

fun greedy_close :: "string \<Rightarrow> string option" where
  "greedy_close [] = None"
| "greedy_close (c # cs) =
     (case greedy_close cs of
        Some r \<Rightarrow> Some (c # r)
      | None \<Rightarrow> if c = CHR ''}'' then Some [c] else None)"

fun match_object_at :: "string \<Rightarrow> string option" where
  "match_object_at [] = None"
| "match_object_at (c # cs) =
     (if c = CHR ''{'' then (case greedy_close cs of None \<Rightarrow> None | Some r \<Rightarrow> Some (c # r)) else None)"

fun re_search_object :: "string \<Rightarrow> string option" where
  "re_search_object [] = None"
| "re_search_object (c # cs) =
     (case match_object_at (c # cs) of Some m \<Rightarrow> Some m | None \<Rightarrow> re_search_object cs)"

text \<open>
  The body of the \<^verbatim>\<open>try\<close> block of \<^verbatim>\<open>extract_a2ui_messages\<close> in agent.py, for a stripped,
  non-empty part: the message to append, or \<open>None\<close> when nothing is appended (no match,
  \<^verbatim>\<open>JSONDecodeError\<close>, or a value that is not a dictionary).
\<close>

definition try_part_agent :: "(string \<Rightarrow> json option) \<Rightarrow> string \<Rightarrow> json option" where
  "try_part_agent loads part =
     (case re_search_object part of
        None \<Rightarrow> None
      | Some json_str \<Rightarrow>
          (case loads json_str of
             Some (JObj d) \<Rightarrow> Some (JObj d)
           | _ \<Rightarrow> None))"

text \<open>The same block in a2a\_server.py first removes code-fence characters:
  \<^verbatim>\<open>part.strip().lstrip("```json").rstrip("```").strip()\<close>.\<close>

definition try_part_server :: "(string \<Rightarrow> json option) \<Rightarrow> string \<Rightarrow> json option" where
  "try_part_server loads part =
     (let part = strip (rstrip_chars ''```'' (lstrip_chars ''```json'' (strip part)))
      in case re_search_object part of
           None \<Rightarrow> None
         | Some json_str \<Rightarrow>
             (case loads json_str of
                Some (JObj d) \<Rightarrow> Some (JObj d)
              | _ \<Rightarrow> None))"

text \<open>The loop over the parts; \<open>messages\<close> is the list built so far.\<close>

fun extract_loop :: "(string \<Rightarrow> json option) \<Rightarrow> string list \<Rightarrow> json list \<Rightarrow> json list" where
  "extract_loop try_part [] messages = messages"
| "extract_loop try_part (part # parts) messages =
     (let part = strip part
      in if part = [] then extract_loop try_part parts messages
         else (case try_part part of
                 None \<Rightarrow> extract_loop try_part parts messages
               | Some parsed \<Rightarrow> extract_loop try_part parts (messages @ [parsed])))"

definition extract_a2ui_messages :: "(string \<Rightarrow> json option) \<Rightarrow> string \<Rightarrow> json list" where
  "extract_a2ui_messages loads text =
     extract_loop (try_part_agent loads) (split_text a2ui_delimiter text) []"


definition brace :: "char \<Rightarrow> bool" where
  "brace c = (c = CHR ''{'' \<or> c = CHR ''}'')"


text \<open>
  The extraction step as the design text words it: from the first opening brace to the
  closing brace that matches it, counting nested braces.
\<close>

fun matching_close :: "nat \<Rightarrow> string \<Rightarrow> string option" where
  "matching_close depth [] = None"
| "matching_close depth (c # cs) =
     (if c = CHR ''}'' \<and> depth = 0 then Some [c]
      else map_option ((#) c)
             (matching_close (if c = CHR ''{'' then Suc depth else if c = CHR ''}'' then depth - 1 else depth) cs))"

definition described_first_balanced :: "string \<Rightarrow> string option" where
  "described_first_balanced s =
     (case dropWhile (\<lambda>c. c \<noteq> CHR ''{'') s of
        [] \<Rightarrow> None
      | c # cs \<Rightarrow> map_option ((#) c) (matching_close 0 cs))"

section \<open>Fan-out and fan-in (company\_profiler)\<close>

text \<open>The session state of the profiler: a dictionary from keys to Python objects.\<close>

type_synonym profiler_state = "string \<Rightarrow> json option"

text \<open>\<^verbatim>\<open>f"company_data_{i}"\<close>, the output key of gatherer \<open>i\<close>.\<close>

definition shard_key :: "nat \<Rightarrow> string" where
  "shard_key i = ''company_data_'' @ str_nat i"


text \<open>\<^verbatim>\<open>combine_company_data\<close>: the loop \<^verbatim>\<open>for i in range(5)\<close>, then the write of the result.\<close>

fun combine_loop ::
  "(string \<Rightarrow> json option) \<Rightarrow> profiler_state \<Rightarrow> nat list \<Rightarrow> json list \<Rightarrow> json list" where
  "combine_loop loads st [] all_companies = all_companies"
| "combine_loop loads st (i # rest) all_companies =
     (case (case st (shard_key i) of None \<Rightarrow> JStr ''[]'' | Some d \<Rightarrow> d) of
        JStr data \<Rightarrow>
          (case loads data of
             Some (JArr parsed) \<Rightarrow> combine_loop loads st rest (all_companies @ parsed)
           | _ \<Rightarrow> combine_loop loads st rest all_companies)
      | _ \<Rightarrow> combine_loop loads st rest all_companies)"

definition all_companies :: "(string \<Rightarrow> json option) \<Rightarrow> profiler_state \<Rightarrow> json list" where
  "all_companies loads st = combine_loop loads st [0..<5] []"



section \<open>Session state of the annual-report pipeline\<close>

text \<open>
  One field for each key of the session dictionary that the pipeline reads or writes;
  \<open>None\<close> is a key that is not set. The keys written by a model stage (its output key)
  hold text, the others hold what the callbacks and agents below store in them.
\<close>

record session =
  company_list :: "string list option"
  current_company_index :: "int option"
  total_companies :: "int option"
  processed_companies :: "string list option"
  company_name :: "string option"
  pdf_find_attempt :: "int option"
  tried_urls :: "string list option"
  pdf_url_raw :: "string option"
  pdf_url :: "string option"
  url_valid :: "bool option"
  finder_error :: "string option"
  url_validation_result :: "string option"
  download_result :: "string option"
  pdf_file_path :: "string option"
  download_success :: "bool option"
  download_error :: "string option"
  raw_analysis :: "string option"
  financial_analysis :: "string option"
  final_summary :: "string option"
  structured_output :: "string option"
  storage_result :: "string option"

text \<open>\<^verbatim>\<open>state.get(key, default)\<close>.\<close>

definition get_or :: "'a option \<Rightarrow> 'a \<Rightarrow> 'a" where
  "get_or v d = (case v of None \<Rightarrow> d | Some x \<Rightarrow> x)"

section \<open>Output normalizers (annual\_report\_parser/agent.py)\<close>

subsection \<open>\<^verbatim>\<open>process_finder_output\<close>\<close>

text \<open>
  The three URL patterns are matched by the regular-expression library, which is a
  parameter here: \<open>findall k text\<close> is \<^verbatim>\<open>re.findall(pdf_patterns[k], text, re.IGNORECASE)\<close>.
\<close>

definition url_trailing_chars :: string where
  "url_trailing_chars = ''.,;:!?)]'' @ [CHR 0x27, CHR 0x22]"

text \<open>The loop over the matches of one pattern, then over the patterns.\<close>

fun add_matches :: "string list \<Rightarrow> string list \<Rightarrow> string list" where
  "add_matches [] found_urls = found_urls"
| "add_matches (url # matches) found_urls =
     (let url = rstrip_chars url_trailing_chars url
      in if url \<notin> set found_urls then add_matches matches (found_urls @ [url])
         else add_matches matches found_urls)"

fun collect_urls :: "(nat \<Rightarrow> string \<Rightarrow> string list) \<Rightarrow> string \<Rightarrow> nat list \<Rightarrow> string list \<Rightarrow> string list" where
  "collect_urls findall text [] found_urls = found_urls"
| "collect_urls findall text (k # ks) found_urls =
     collect_urls findall text ks (add_matches (findall k text) found_urls)"

definition preferred_domains :: "string list" where
  "preferred_domains = [''investor'', ''ir.'', ''annualreport'', ''q4cdn'', ''sec.gov'']"

text \<open>The inner loop \<^verbatim>\<open>for domain in preferred_domains\<close>: the first domain found in the
  lower-cased URL sets \<open>best_url\<close> and leaves this loop.\<close>

fun domain_loop :: "string list \<Rightarrow> string \<Rightarrow> string \<Rightarrow> string" where
  "domain_loop [] url best_url = best_url"
| "domain_loop (domain # domains) url best_url =
     (if contains (lower url) domain then url else domain_loop domains url best_url)"

text \<open>The outer loop \<^verbatim>\<open>for url in found_urls\<close>.\<close>

fun url_loop :: "string list \<Rightarrow> string \<Rightarrow> string" where
  "url_loop [] best_url = best_url"
| "url_loop (url # urls) best_url = url_loop urls (domain_loop preferred_domains url best_url)"

text \<open>Lines 147 to 153, entered with a non-empty list: \<open>best_url\<close> starts as \<^verbatim>\<open>found_urls[0]\<close>.\<close>

fun choose_best_url :: "string list \<Rightarrow> string" where
  "choose_best_url (first # others) = url_loop (first # others) first"
| "choose_best_url [] = []"

definition process_finder_output :: "(nat \<Rightarrow> string \<Rightarrow> string list) \<Rightarrow> session \<Rightarrow> session" where
  "process_finder_output findall st =
     (let finder_output = get_or (pdf_url_raw st) [];
          st = st\<lparr>pdf_url := Some [], url_valid := Some False\<rparr>
      in if contains finder_output ''ERROR:'' \<or> contains (lower finder_output) ''no pdf''
         then st\<lparr>finder_error := Some finder_output\<rparr>
         else
           (let found_urls = collect_urls findall finder_output [0, 1, 2] []
            in if found_urls \<noteq> [] then st\<lparr>pdf_url := Some (choose_best_url found_urls)\<rparr>
               else st\<lparr>finder_error := Some ''No PDF URL found in search results''\<rparr>))"

text \<open>Whether a URL contains one of the preferred domains.\<close>

definition is_preferred :: "string \<Rightarrow> bool" where
  "is_preferred url = list_ex (\<lambda>domain. contains (lower url) domain) preferred_domains"

subsection \<open>\<^verbatim>\<open>format_final_output\<close>\<close>

definition is_ascii_letter :: "char \<Rightarrow> bool" where
  "is_ascii_letter c = ((97 \<le> code c \<and> code c \<le> 122) \<or> (65 \<le> code c \<and> code c \<le> 90))"

text \<open>\<^verbatim>\<open>re.sub(r"^```[a-zA-Z]*\s*", "", s)\<close>: an opening fence at the start of the text, the
  letters after it and the white space after them.\<close>

definition sub_fence_open :: "string \<Rightarrow> string" where
  "sub_fence_open s =
     (if prefix ''```'' s then dropWhile is_space (dropWhile is_ascii_letter (drop 3 s)) else s)"

text \<open>\<^verbatim>\<open>re.sub(r"\s*```$", "", s)\<close>: a closing fence at the end of the text, or before the
  line break that ends the text, and the white space before it.\<close>

definition sub_fence_close :: "string \<Rightarrow> string" where
  "sub_fence_close s =
     (if suffix ''```'' s then rstrip_by is_space (take (length s - 3) s)
      else if suffix (''```'' @ [CHR 0x0A]) s then rstrip_by is_space (take (length s - 4) s) @ [CHR 0x0A]
      else s)"

definition clean_summary :: "string \<Rightarrow> string" where
  "clean_summary summary =
     (let clean = strip summary
      in if prefix ''```'' clean then sub_fence_close (sub_fence_open clean) else clean)"

text \<open>The parameter \<open>dumps\<close> is \<^verbatim>\<open>json.dumps(parsed, indent=2)\<close>.\<close>

definition format_final_output ::
  "(string \<Rightarrow> json option) \<Rightarrow> (json \<Rightarrow> string) \<Rightarrow> session \<Rightarrow> session" where
  "format_final_output loads dumps st =
     (let summary = get_or (final_summary st) []
      in case loads (clean_summary summary) of
           Some parsed \<Rightarrow> st\<lparr>structured_output := Some (dumps parsed)\<rparr>
         | None \<Rightarrow> st\<lparr>structured_output := Some summary\<rparr>)"

subsection \<open>\<^verbatim>\<open>track_processed_company\<close>\<close>

definition track_processed_company :: "session \<Rightarrow> session" where
  "track_processed_company st =
     (let name = get_or (company_name st) [];
          processed = get_or (processed_companies st) [];
          st = (if name \<noteq> [] \<and> name \<notin> set processed
                then st\<lparr>processed_companies := Some (processed @ [name])\<rparr> else st);
          current_index = get_or (current_company_index st) 0
      in st\<lparr>current_company_index := Some (current_index + 1)\<rparr>)"

section \<open>Loop control (annual\_report\_parser)\<close>

text \<open>
  An agent yields events. The text of an event is kept as the format string's name with
  the values that fill it; \<open>escalate\<close> is the flag of \<^verbatim>\<open>EventActions\<close>.
\<close>

datatype message =
    Downloaded
  | FailedAfter int
  | RetryAttempt int int
  | AllProcessed int "string list"
  | Processing int int string

record event =
  content :: message
  escalate :: bool

subsection \<open>\<^verbatim>\<open>DownloadCheckerAgent\<close>\<close>

definition max_attempts :: int where
  "max_attempts = 5"

definition download_checker :: "session \<Rightarrow> session \<times> event" where
  "download_checker st =
     (let success = get_or (download_success st) False;
          attempt = get_or (pdf_find_attempt st) 0
      in if success then (st, \<lparr>content = Downloaded, escalate = True\<rparr>)
         else if attempt \<ge> max_attempts then (st, \<lparr>content = FailedAfter max_attempts, escalate = True\<rparr>)
         else (st\<lparr>pdf_find_attempt := Some (attempt + 1)\<rparr>,
               \<lparr>content = RetryAttempt (attempt + 1) max_attempts, escalate = False\<rparr>))"

subsection \<open>The retry loop \<^verbatim>\<open>pdf_find_retry_loop\<close>\<close>

text \<open>
  Modelled from the spec: the loop driver is a class of the agent framework. It runs the
  sub-agents in order, pass after pass, and stops when a sub-agent's event escalates or
  when \<^verbatim>\<open>max_iterations\<close> passes are done.

  The finder, validator and downloader of a pass are model stages with their callbacks;
  \<open>stages k\<close> is what the three of them do to the state in pass \<open>k\<close>. Only the
  checker, the last sub-agent, can escalate. The result is the final state, the checker's
  events and the way the loop ended.
\<close>

datatype loop_exit = Escalated | MaxIterations

fun retry_passes ::
  "(nat \<Rightarrow> session \<Rightarrow> session) \<Rightarrow> nat \<Rightarrow> nat \<Rightarrow> session \<Rightarrow> event list \<Rightarrow> session \<times> event list \<times> loop_exit" where
  "retry_passes stages 0 k st events = (st, events, MaxIterations)"
| "retry_passes stages (Suc remaining) k st events =
     (case download_checker (stages k st) of
        (st', ev) \<Rightarrow>
          if escalate ev then (st', events @ [ev], Escalated)
          else retry_passes stages remaining (Suc k) st' (events @ [ev]))"

definition max_iterations :: nat where
  "max_iterations = 5"

definition pdf_find_retry_loop :: "(nat \<Rightarrow> session \<Rightarrow> session) \<Rightarrow> session \<Rightarrow> session \<times> event list \<times> loop_exit" where
  "pdf_find_retry_loop stages st = retry_passes stages max_iterations 0 st []"

subsection \<open>\<^verbatim>\<open>CompanyIteratorAgent\<close>\<close>

text \<open>\<^verbatim>\<open>xs[i]\<close>: a negative index counts from the end; out of range is \<^verbatim>\<open>IndexError\<close>.\<close>

definition py_index :: "'a list \<Rightarrow> int \<Rightarrow> py_error + 'a" where
  "py_index xs i =
     (if 0 \<le> i \<and> i < int (length xs) then Inr (xs ! nat i)
      else if i < 0 \<and> - i \<le> int (length xs) then Inr (xs ! nat (int (length xs) + i))
      else Inl IndexError)"

definition company_iterator :: "session \<Rightarrow> py_error + session \<times> event" where
  "company_iterator st =
     (let companies = get_or (company_list st) [];
          current_index = get_or (current_company_index st) 0;
          total = get_or (total_companies st) (int (length companies))
      in if current_index \<ge> total
         then Inr (st, \<lparr>content = AllProcessed total (get_or (processed_companies st) []), escalate = True\<rparr>)
         else
           (case py_index companies current_index of
              Inl e \<Rightarrow> Inl e
            | Inr name \<Rightarrow>
                Inr (st\<lparr>company_name := Some name,
                        pdf_find_attempt := Some 0,
                        tried_urls := Some [],
                        pdf_url := Some [],
                        pdf_file_path := Some [],
                        download_success := Some False,
                        raw_analysis := Some [],
                        financial_analysis := Some [],
                        final_summary := Some []\<rparr>,
                     \<lparr>content = Processing (current_index + 1) total name, escalate = False\<rparr>)))"

subsection \<open>\<^verbatim>\<open>reset_company_state\<close> (loop\_tools.py)\<close>

text \<open>The tool returns the status and the company name; the state is reset in place.\<close>

definition reset_company_state :: "session \<Rightarrow> session \<times> string \<times> string" where
  "reset_company_state st =
     (let st = st\<lparr>pdf_find_attempt := Some 0,
                  tried_urls := Some [],
                  pdf_url := Some [],
                  pdf_url_raw := Some [],
                  pdf_file_path := Some [],
                  download_result := Some [],
                  raw_analysis := Some [],
                  financial_analysis := Some [],
                  final_summary := Some [],
                  structured_output := Some []\<rparr>
      in (st, ''reset'', get_or (company_name st) ''Unknown''))"

section \<open>Inbound messages (company\_profiler/a2a\_server.py)\<close>

text \<open>
  \<^verbatim>\<open>handle_message\<close> up to the point where the agent is loaded. The request body is the
  decoded JSON of the request, or \<open>None\<close> when \<^verbatim>\<open>request.json()\<close> raises. \<open>fresh_id\<close>
  is the identifier \<^verbatim>\<open>uuid.uuid4()\<close> produces for a request without an id. Everything
  after the query is found (loading the agent, the session, the run and the response) is
  the parameter \<open>run_agent\<close>, which takes the request id, the parameters, the extension
  flag, the query and the server.
\<close>

datatype 'r reply =
    BadRequest
  | RpcError json int string
  | AgentReply 'r

fun and_then :: "py_error + 'a \<Rightarrow> ('a \<Rightarrow> py_error + 'b) \<Rightarrow> py_error + 'b" where
  "and_then (Inl e) f = Inl e"
| "and_then (Inr x) f = f x"

text \<open>The loop over the parts; the result is the query, empty when no part sets it.\<close>

fun find_query :: "(json \<Rightarrow> string) \<Rightarrow> json list \<Rightarrow> py_error + json" where
  "find_query dumps [] = Inr (JStr [])"
| "find_query dumps (part # parts) =
     and_then (dict_get part ''kind'' JNull) (\<lambda>kind.
       if kind = JStr ''text'' then dict_get part ''text'' (JStr [])
       else if kind = JStr ''data'' then
         and_then (dict_get part ''data'' (JObj [])) (\<lambda>data.
           and_then (py_in ''userAction'' data) (\<lambda>found.
             if found then Inr (JStr (dumps data)) else find_query dumps parts))
       else find_query dumps parts)"

definition handle_message ::
  "(json \<Rightarrow> string) \<Rightarrow> (json \<Rightarrow> json \<Rightarrow> bool \<Rightarrow> json \<Rightarrow> 'srv \<Rightarrow> 'r \<times> 'srv) \<Rightarrow> string \<Rightarrow> bool \<Rightarrow>
   json option \<Rightarrow> 'srv \<Rightarrow> py_error + 'r reply \<times> 'srv" where
  "handle_message dumps run_agent fresh_id a2ui_requested request_json srv =
     (case request_json of
        None \<Rightarrow> Inr (BadRequest, srv)
      | Some body \<Rightarrow>
          and_then (dict_get body ''method'' (JStr [])) (\<lambda>method.
          and_then (dict_get body ''params'' (JObj [])) (\<lambda>params.
          and_then (dict_get body ''id'' (JStr fresh_id)) (\<lambda>request_id.
          and_then (dict_get params ''message'' (JObj [])) (\<lambda>message_data.
          and_then (dict_get message_data ''parts'' (JArr [])) (\<lambda>parts.
          and_then (py_iter parts) (\<lambda>part_list.
          and_then (find_query dumps part_list) (\<lambda>query.
            if \<not> truthy query
            then Inr (RpcError request_id (- 32600) ''No message content provided'', srv)
            else (case run_agent request_id params a2ui_requested query srv of
                    (r, srv') \<Rightarrow> Inr (AgentReply r, srv'))))))))))"

text \<open>
  Requests without message content. \<open>request_parts\<close> gives the parts of a
  request whose body is an object and whose \<^verbatim>\<open>params\<close>, \<^verbatim>\<open>message\<close> and \<^verbatim>\<open>parts\<close>, where
  present, are an object, an object and a list. A part is without content when it is an
  object, its kind is not \<^verbatim>\<open>text\<close>, and, if its kind is \<^verbatim>\<open>data\<close>, its payload can be asked
  for the key \<^verbatim>\<open>userAction\<close> and does not have it.
\<close>

definition request_parts :: "json \<Rightarrow> json list option" where
  "request_parts body =
     (case body of
        JObj entries \<Rightarrow>
          (case map_of entries ''params'' of
             None \<Rightarrow> Some []
           | Some (JObj params) \<Rightarrow>
               (case map_of params ''message'' of
                  None \<Rightarrow> Some []
                | Some (JObj message_data) \<Rightarrow>
                    (case map_of message_data ''parts'' of
                       None \<Rightarrow> Some []
                     | Some (JArr parts) \<Rightarrow> Some parts
                     | Some _ \<Rightarrow> None)
                | Some _ \<Rightarrow> None)
           | Some _ \<Rightarrow> None)
      | _ \<Rightarrow> None)"

definition part_without_content :: "json \<Rightarrow> bool" where
  "part_without_content part =
     (case part of
        JObj entries \<Rightarrow>
          (case map_of entries ''kind'' of
             None \<Rightarrow> True
           | Some kind \<Rightarrow>
               if kind = JStr ''text'' then False
               else if kind = JStr ''data'' then
                 (case py_in ''userAction'' (case map_of entries ''data'' of None \<Rightarrow> JObj [] | Some d \<Rightarrow> d) of
                    Inr found \<Rightarrow> \<not> found
                  | Inl e \<Rightarrow> False)
               else True)
      | _ \<Rightarrow> False)"

text \<open>The id echoed in the response: the request's own, or the fresh one.\<close>

definition request_id_of :: "string \<Rightarrow> json \<Rightarrow> json" where
  "request_id_of fresh_id body =
     (case body of
        JObj entries \<Rightarrow> (case map_of entries ''id'' of None \<Rightarrow> JStr fresh_id | Some i \<Rightarrow> i)
      | _ \<Rightarrow> JStr fresh_id)"

section \<open>Example runs\<close>

text \<open>Concrete states and stages on which the theorems below are instantiated.\<close>

definition empty_session :: session where
  "empty_session =
     \<lparr>company_list = None, current_company_index = None, total_companies = None,
      processed_companies = None, company_name = None, pdf_find_attempt = None,
      tried_urls = None, pdf_url_raw = None, pdf_url = None, url_valid = None,
      finder_error = None, url_validation_result = None, download_result = None,
      pdf_file_path = None, download_success = None, download_error = None,
      raw_analysis = None, financial_analysis = None, final_summary = None,
      structured_output = None, storage_result = None\<rparr>"

text \<open>The state of a run over the companies A and B after A was found at the second
  attempt, analysed, stored and tracked.\<close>

definition after_first_item :: session where
  \<open>after_first_item =
     \<lparr>company_list = Some [''A'', ''B''], current_company_index = Some 1, total_companies = Some 2,
      processed_companies = Some [''A''], company_name = Some ''A'', pdf_find_attempt = Some 1,
      tried_urls = Some [], pdf_url_raw = Some ''https://a.example/annual.pdf'',
      pdf_url = Some ''https://a.example/annual.pdf'', url_valid = Some False,
      finder_error = Some ''ERROR: No PDF found'',
      url_validation_result = Some ''URL_VALID: https://a.example/annual.pdf'',
      download_result = Some ''{"success": true, "file_path": "/tmp/a.pdf"}'',
      pdf_file_path = Some ''/tmp/a.pdf'', download_success = Some True,
      download_error = Some ''No PDF URL provided'',
      raw_analysis = Some ''Revenue of A grew.'', financial_analysis = Some ''Revenue of A grew.'',
      final_summary = Some ''{"company_name": "A"}'',
      structured_output = Some (json_dumps_indent2 (JObj [(''company_name'', JStr ''A'')])),
      storage_result = Some ''stored''\<rparr>\<close>

text \<open>The three model stages of a pass in which no report is found: the finder answers
  with its error text, and the downloader reports that nothing was downloaded.\<close>

definition failing_stages :: "nat \<Rightarrow> session \<Rightarrow> session" where
  \<open>failing_stages k st =
     (process_finder_output (\<lambda>pattern text. []) (st\<lparr>pdf_url_raw := Some ''ERROR: No PDF found''\<rparr>))
       \<lparr>url_validation_result := Some ''URL_INVALID: empty URL'',
        download_result := Some ''{"success": false, "error": "No PDF URL provided"}'',
        pdf_file_path := Some [],
        download_success := Some False,
        download_error := Some ''No PDF URL provided''\<rparr>\<close>




text \<open>A text of three delimited parts: a part without closing brace, then an object.\<close>

definition scenario_text :: string where
  \<open>scenario_text = ''---a2ui_JSON---{bad json---a2ui_JSON---{"k":1}---a2ui_JSON---''\<close>

text \<open>A request with a file part and a data part without user action, and a server that
  counts the runs of the agent.\<close>

definition request_without_content :: json where
  "request_without_content =
     JObj [(''jsonrpc'', JStr ''2.0''), (''id'', JInt 7), (''method'', JStr ''message/send''),
           (''params'',
            JObj [(''message'',
                   JObj [(''role'', JStr ''user''),
                         (''parts'',
                          JArr [JObj [(''kind'', JStr ''file'')],
                                JObj [(''kind'', JStr ''data''), (''data'', JObj [(''scroll'', JInt 3)])]])])])]"

definition counting_agent :: "json \<Rightarrow> json \<Rightarrow> bool \<Rightarrow> json \<Rightarrow> nat \<Rightarrow> json \<times> nat" where
  "counting_agent request_id params a2ui_requested query runs = (query, Suc runs)"

text \<open>
  The premise on a part in its plain reading: the part is not of kind \<^verbatim>\<open>text\<close>, and it
  is not a part of kind \<^verbatim>\<open>data\<close> whose payload is a dictionary with the key
  \<^verbatim>\<open>userAction\<close>.
\<close>

definition has_user_action_key :: "json \<Rightarrow> bool" where
  "has_user_action_key payload =
     (case payload of JObj entries \<Rightarrow> ''userAction'' \<in> set (map fst entries) | _ \<Rightarrow> False)"

definition described_without_content :: "json \<Rightarrow> bool" where
  "described_without_content part =
     (case part of
        JObj entries \<Rightarrow>
          map_of entries ''kind'' \<noteq> Some (JStr ''text'')
          \<and> \<not> (map_of entries ''kind'' = Some (JStr ''data'')
                \<and> (case map_of entries ''data'' of None \<Rightarrow> False | Some payload \<Rightarrow> has_user_action_key payload))
      | _ \<Rightarrow> True)"

text \<open>Two requests with a single data part: one whose payload is \<^verbatim>\<open>null\<close>, one whose
  payload is the list \<^verbatim>\<open>["userAction"]\<close>.\<close>

definition request_null_payload :: json where
  "request_null_payload =
     JObj [(''jsonrpc'', JStr ''2.0''), (''id'', JInt 8), (''method'', JStr ''message/send''),
           (''params'',
            JObj [(''message'',
                   JObj [(''role'', JStr ''user''),
                         (''parts'', JArr [JObj [(''kind'', JStr ''data''), (''data'', JNull)]])])])]"

definition request_list_payload :: json where
  "request_list_payload =
     JObj [(''jsonrpc'', JStr ''2.0''), (''id'', JInt 9), (''method'', JStr ''message/send''),
           (''params'',
            JObj [(''message'',
                   JObj [(''role'', JStr ''user''),
                         (''parts'', JArr [JObj [(''kind'', JStr ''data''), (''data'', JArr [JStr ''userAction''])]])])])]"

text \<open>A final summary: a JSON object with white space around it.\<close>

definition summary_text :: string where
  \<open>summary_text = '' {"company_name": "A", "revenue": [1, 2]}'' @ [CHR 0x0A]\<close>

section \<open>Properties of the namespace derivation\<close>

lemma dropWhile_same_replicate:
  "xs = replicate (length (takeWhile (\<lambda>c. c = a) xs)) a @ dropWhile (\<lambda>c. c = a) xs"
proof -
  have "\<forall>y\<in>set (takeWhile (\<lambda>c. c = a) xs). y = a"
    by (auto dest: set_takeWhileD)
  then have "replicate (length (takeWhile (\<lambda>c. c = a) xs)) a = takeWhile (\<lambda>c. c = a) xs"
    by (rule replicate_length_same)
  then show ?thesis by simp
qed

lemma dropWhile_not_prefix: "\<not> prefix [a] (dropWhile (\<lambda>c. c = a) xs)"
proof (cases "dropWhile (\<lambda>c. c = a) xs")
  case Nil
  show ?thesis unfolding Nil by simp
next
  case (Cons y ys)
  then have "\<not> (y = a)" using hd_dropWhile[of "\<lambda>c. c = a" xs] by auto
  then show ?thesis unfolding Cons by simp
qed

lemma strip_chars_single_unfold:
  "strip_chars [a] xs = rev (dropWhile (\<lambda>c. c = a) (rev (dropWhile (\<lambda>c. c = a) xs)))"
  by (simp add: strip_chars_def lstrip_chars_def rstrip_chars_def lstrip_by_def rstrip_by_def)

lemma strip_chars_single:
  "\<exists>i j. xs = replicate i a @ strip_chars [a] xs @ replicate j a"
proof -
  let ?l = "dropWhile (\<lambda>c. c = a) xs"
  have 1: "xs = replicate (length (takeWhile (\<lambda>c. c = a) xs)) a @ ?l"
    by (rule dropWhile_same_replicate)
  have 2: "rev ?l = replicate (length (takeWhile (\<lambda>c. c = a) (rev ?l))) a @ dropWhile (\<lambda>c. c = a) (rev ?l)"
    by (rule dropWhile_same_replicate)
  have "?l = rev (rev ?l)" by simp
  also have "\<dots> = rev (dropWhile (\<lambda>c. c = a) (rev ?l)) @ replicate (length (takeWhile (\<lambda>c. c = a) (rev ?l))) a"
    by (subst 2) (simp only: rev_append rev_replicate)
  finally have 3: "?l = strip_chars [a] xs @ replicate (length (takeWhile (\<lambda>c. c = a) (rev ?l))) a"
    by (simp add: strip_chars_single_unfold)
  from 1 3 show ?thesis by metis
qed

lemma strip_chars_single_ends:
  "\<not> prefix [a] (strip_chars [a] xs) \<and> \<not> suffix [a] (strip_chars [a] xs)"
proof -
  let ?l = "dropWhile (\<lambda>c. c = a) xs"
  have s: "strip_chars [a] xs = rev (dropWhile (\<lambda>c. c = a) (rev ?l))"
    by (rule strip_chars_single_unfold)
  have suf: "\<not> suffix [a] (strip_chars [a] xs)"
    using dropWhile_not_prefix[of a "rev ?l"] unfolding s suffix_to_prefix by simp
  have pre: "\<not> prefix [a] (strip_chars [a] xs)"
  proof
    assume p: "prefix [a] (strip_chars [a] xs)"
    obtain j where j: "?l = strip_chars [a] xs @ replicate j a"
      using dropWhile_same_replicate[of "rev ?l" a] unfolding s
      by (metis rev_append rev_replicate rev_rev_ident)
    from p j have "prefix [a] ?l" by (metis prefix_prefix)
    with dropWhile_not_prefix[of a xs] show False by simp
  qed
  from pre suf show ?thesis by simp
qed

lemma re_sub_namespace_map:
  "re_sub_namespace s = map (\<lambda>c. if is_alnum c \<or> c = CHR ''-'' then c else CHR ''_'') s"
  by (induction s) (auto simp: in_namespace_class_def is_alnum_def)

lemmas text_eval =
  strip_chars_def lstrip_chars_def rstrip_chars_def lstrip_by_def rstrip_by_def strip_def
  lower_def lower_char_def code_def is_space_def char_of_eq_iff

text \<open>
  C9, as stated, fails: for the identifier \<^verbatim>\<open>Apple Inc.\<close> the namespace passed to the
  upsert is \<^verbatim>\<open>apple_inc\<close>, while lower-casing and replacing every non-alphanumeric
  character gives \<^verbatim>\<open>apple_inc_\<close>; for \<^verbatim>\<open>Coca-Cola\<close> the hyphen is kept.
\<close>

theorem store_namespace_counterexample:
  "store_namespace ''Apple Inc.'' = ''apple_inc''
   \<and> described_namespace ''Apple Inc.'' = ''apple_inc_''
   \<and> store_namespace ''Coca-Cola'' = ''coca-cola''
   \<and> described_namespace ''Coca-Cola'' = ''coca_cola''"
  by (simp add: store_namespace_def described_namespace_def in_namespace_class_def is_alnum_def text_eval)

text \<open>
  C9, amended: the namespace is the identifier lower-cased, with every character other
  than an ASCII letter, a digit or a hyphen replaced by an underscore, and with the
  underscores at both ends removed; it depends on the identifier alone, and the search
  derives the same namespace from a non-empty filter.
\<close>

theorem store_namespace_shape:
  "(\<exists>i j. map (\<lambda>c. if is_alnum c \<or> c = CHR ''-'' then c else CHR ''_'') (lower ident)
        = replicate i (CHR ''_'') @ store_namespace ident @ replicate j (CHR ''_''))
   \<and> \<not> prefix ''_'' (store_namespace ident) \<and> \<not> suffix ''_'' (store_namespace ident)
   \<and> search_namespace ident = (if ident = [] then [] else store_namespace ident)"
  unfolding store_namespace_def search_namespace_def re_sub_namespace_map
  using strip_chars_single[of "map (\<lambda>c. if is_alnum c \<or> c = CHR ''-'' then c else CHR ''_'') (lower ident)" "CHR ''_''"]
    strip_chars_single_ends[of "CHR ''_''" "map (\<lambda>c. if is_alnum c \<or> c = CHR ''-'' then c else CHR ''_'') (lower ident)"]
  by simp

theorem store_namespace_shape_witness:
  "(\<exists>i j. ''apple_inc_'' = replicate i (CHR ''_'') @ ''apple_inc'' @ replicate j (CHR ''_''))
   \<and> \<not> prefix ''_'' ''apple_inc'' \<and> \<not> suffix ''_'' ''apple_inc''
   \<and> search_namespace ''Apple Inc.'' = ''apple_inc''"
proof -
  have ns: "store_namespace ''Apple Inc.'' = ''apple_inc''"
    by (simp add: store_namespace_def in_namespace_class_def text_eval)
  have full: "map (\<lambda>c. if is_alnum c \<or> c = CHR ''-'' then c else CHR ''_'') (lower ''Apple Inc.'') = ''apple_inc_''"
    by (simp add: is_alnum_def text_eval)
  show ?thesis
    using store_namespace_shape[of "''Apple Inc.''"] unfolding ns full by simp
qed

section \<open>Properties of the retry loop\<close>


lemma download_checker_retry:
  assumes "get_or (download_success st) False = False" and "get_or (pdf_find_attempt st) 0 = a" and "a < 5"
  shows "download_checker st =
           (st\<lparr>pdf_find_attempt := Some (a + 1)\<rparr>, \<lparr>content = RetryAttempt (a + 1) 5, escalate = False\<rparr>)"
  using assms by (simp add: download_checker_def max_attempts_def Let_def)

lemma retry_passes_failing:
  assumes fail: "\<forall>k s. get_or (download_success (stages k s)) False = False"
    and frame: "\<forall>k s. pdf_find_attempt (stages k s) = pdf_find_attempt s"
  shows "pdf_find_attempt st = Some a \<Longrightarrow> a + int r \<le> 5 \<Longrightarrow>
         \<exists>st'. retry_passes stages r k st evs =
                 (st', evs @ map (\<lambda>i. \<lparr>content = RetryAttempt (a + 1 + int i) 5, escalate = False\<rparr>) [0..<r], MaxIterations)
               \<and> pdf_find_attempt st' = Some (a + int r)"
proof (induction r arbitrary: k st evs a)
  case 0
  then show ?case by simp
next
  case (Suc r)
  let ?s = "stages k st"
  have att: "get_or (pdf_find_attempt ?s) 0 = a"
    using frame Suc.prems(1) by (simp add: get_or_def)
  have lt: "a < 5" using Suc.prems(2) by simp
  have step: "download_checker ?s =
      (?s\<lparr>pdf_find_attempt := Some (a + 1)\<rparr>, \<lparr>content = RetryAttempt (a + 1) 5, escalate = False\<rparr>)"
    using download_checker_retry[OF _ att lt] fail by simp
  have "pdf_find_attempt (?s\<lparr>pdf_find_attempt := Some (a + 1)\<rparr>) = Some (a + 1)" by simp
  moreover have "(a + 1) + int r \<le> 5" using Suc.prems(2) by simp
  ultimately obtain st' where
    r: "retry_passes stages r (Suc k) (?s\<lparr>pdf_find_attempt := Some (a + 1)\<rparr>)
          (evs @ [\<lparr>content = RetryAttempt (a + 1) 5, escalate = False\<rparr>]) =
        (st', (evs @ [\<lparr>content = RetryAttempt (a + 1) 5, escalate = False\<rparr>])
              @ map (\<lambda>i. \<lparr>content = RetryAttempt (a + 1 + 1 + int i) 5, escalate = False\<rparr>) [0..<r], MaxIterations)"
    and a': "pdf_find_attempt st' = Some (a + 1 + int r)"
    using Suc.IH by blast
  have m: "map (\<lambda>i. \<lparr>content = RetryAttempt (a + 1 + int i) 5, escalate = False\<rparr>) [0..<Suc r]
        = \<lparr>content = RetryAttempt (a + 1) 5, escalate = False\<rparr>
          # map (\<lambda>i. \<lparr>content = RetryAttempt (a + 1 + 1 + int i) 5, escalate = False\<rparr>) [0..<r]"
    by (simp add: upt_conv_Cons map_Suc_upt[symmetric] del: upt_Suc) 
  show ?case
    unfolding m using step r a' by (simp add: add.commute add.left_commute)
qed

lemma download_checker_exhausted:
  assumes "get_or (download_success st) False = False" and "5 \<le> get_or (pdf_find_attempt st) 0"
  shows "download_checker st = (st, \<lparr>content = FailedAfter 5, escalate = True\<rparr>)"
  using assms by (simp add: download_checker_def max_attempts_def Let_def)

text \<open>
  C1: an item whose download fails on every pass, starting from the attempt counter 0 that
  the iterator sets. The loop makes exactly five passes and never more. It does not end
  in the checker's failure exit: in each of the five passes the checker finds the counter
  below 5 and asks for a retry, and the loop then stops because the five iterations are
  used up, with the counter at 5 and no escalating event. The comparison
  \<^verbatim>\<open>attempt >= max_attempts\<close> would hold only in a sixth pass.
\<close>


theorem retry_loop_failing_run:
  assumes "\<forall>k s. download_success (stages k s) \<noteq> Some True"
    and "\<forall>k s. pdf_find_attempt (stages k s) = pdf_find_attempt s"
    and "pdf_find_attempt st = Some 0"
  shows "\<exists>st' evs. pdf_find_retry_loop stages st = (st', evs, MaxIterations)
           \<and> map content evs = [RetryAttempt 1 5, RetryAttempt 2 5, RetryAttempt 3 5, RetryAttempt 4 5, RetryAttempt 5 5]
           \<and> list_all (\<lambda>ev. \<not> escalate ev) evs
           \<and> pdf_find_attempt st' = Some 5"
proof -
  have fail: "\<forall>k s. get_or (download_success (stages k s)) False = False"
  proof (intro allI)
    fix k s show "get_or (download_success (stages k s)) False = False"
      using assms(1)[rule_format, of k s] by (cases "download_success (stages k s)") (auto simp: get_or_def)
  qed
  obtain st' where
    r: "retry_passes stages 5 0 st [] =
        (st', [] @ map (\<lambda>i. \<lparr>content = RetryAttempt (0 + 1 + int i) 5, escalate = False\<rparr>) [0..<5], MaxIterations)"
    and a: "pdf_find_attempt st' = Some (0 + int 5)"
    using retry_passes_failing[OF fail assms(2), of st 0 5 0 "[]"] assms(3) by auto
  have five: "[0..<5] = [0, 1, 2, 3, 4]" by (simp add: upt_rec)
  show ?thesis
    unfolding pdf_find_retry_loop_def max_iterations_def r five using a by simp
qed

theorem retry_loop_failing_run_witness:
  "\<exists>st' evs. pdf_find_retry_loop failing_stages (empty_session\<lparr>pdf_find_attempt := Some 0\<rparr>) = (st', evs, MaxIterations)
           \<and> map content evs = [RetryAttempt 1 5, RetryAttempt 2 5, RetryAttempt 3 5, RetryAttempt 4 5, RetryAttempt 5 5]
           \<and> list_all (\<lambda>ev. \<not> escalate ev) evs
           \<and> pdf_find_attempt st' = Some 5"
proof -
  have 1: "\<forall>k s. download_success (failing_stages k s) \<noteq> Some True"
    by (simp add: failing_stages_def)
  have 2: "\<forall>k s. pdf_find_attempt (failing_stages k s) = pdf_find_attempt s"
    by (simp add: failing_stages_def process_finder_output_def Let_def)
  have 3: "pdf_find_attempt (empty_session\<lparr>pdf_find_attempt := Some 0\<rparr>) = Some 0"
    by simp
  show ?thesis by (rule retry_loop_failing_run[OF 1 2 3])
qed

section \<open>Properties of the outer iteration\<close>

text \<open>
  C5: when the iterator selects the next company it resets eight keys, and leaves the
  raw finder output, the download result, the structured output and the error notes of
  the previous company in place. \<^verbatim>\<open>reset_company_state\<close>, which no agent calls, clears
  the first three of them.
\<close>


theorem company_iterator_keeps_stage_outputs:
  assumes "company_iterator st = Inr (st', ev)" and "\<not> escalate ev"
  shows "pdf_url_raw st' = pdf_url_raw st \<and> download_result st' = download_result st
       \<and> structured_output st' = structured_output st
       \<and> finder_error st' = finder_error st \<and> download_error st' = download_error st
       \<and> pdf_find_attempt st' = Some 0 \<and> tried_urls st' = Some [] \<and> pdf_url st' = Some []
       \<and> pdf_file_path st' = Some [] \<and> download_success st' = Some False
       \<and> raw_analysis st' = Some [] \<and> financial_analysis st' = Some [] \<and> final_summary st' = Some []
       \<and> pdf_url_raw (fst (reset_company_state st)) = Some []
       \<and> download_result (fst (reset_company_state st)) = Some []
       \<and> structured_output (fst (reset_company_state st)) = Some []"
  using assms
  by (auto simp: company_iterator_def reset_company_state_def Let_def split: if_splits sum.splits)

theorem company_iterator_keeps_stage_outputs_witness:
  \<open>\<exists>st' ev. company_iterator after_first_item = Inr (st', ev) \<and> \<not> escalate ev
     \<and> company_name st' = Some ''B''
     \<and> pdf_url_raw st' = Some ''https://a.example/annual.pdf''
     \<and> download_result st' = Some ''{"success": true, "file_path": "/tmp/a.pdf"}''
     \<and> structured_output st' = Some (json_dumps_indent2 (JObj [(''company_name'', JStr ''A'')]))
     \<and> finder_error st' = Some ''ERROR: No PDF found''
     \<and> structured_output (fst (reset_company_state after_first_item)) = Some []\<close>
proof -
  have "\<exists>st' ev. company_iterator after_first_item = Inr (st', ev) \<and> \<not> escalate ev \<and> company_name st' = Some ''B''"
    by (simp add: company_iterator_def after_first_item_def get_or_def py_index_def Let_def)
  then obtain st' ev where run: "company_iterator after_first_item = Inr (st', ev)"
    and ne: "\<not> escalate ev" and name: "company_name st' = Some ''B''"
    by blast
  from company_iterator_keeps_stage_outputs[OF run ne] run ne name show ?thesis
    by (simp add: after_first_item_def)
qed

text \<open>
  C7: the tracking step adds 1 to the index whatever the outcome of the download was,
  leaves the processed list as it is when the company is already in it, and a second
  call does not change the list again.
\<close>


theorem track_processed_company_step:
  "current_company_index (track_processed_company st) = Some (get_or (current_company_index st) 0 + 1)
   \<and> (get_or (company_name st) [] \<in> set (get_or (processed_companies st) [])
        \<longrightarrow> processed_companies (track_processed_company st) = processed_companies st)
   \<and> (\<forall>outcome. current_company_index (track_processed_company (st\<lparr>download_success := outcome\<rparr>))
          = Some (get_or (current_company_index st) 0 + 1))
   \<and> processed_companies (track_processed_company (track_processed_company st))
        = processed_companies (track_processed_company st)"
  by (auto simp: track_processed_company_def Let_def get_or_def split: option.splits)

theorem track_processed_company_step_witness:
  "current_company_index (track_processed_company after_first_item) = Some 2
   \<and> processed_companies (track_processed_company after_first_item) = Some [''A'']
   \<and> processed_companies (track_processed_company (after_first_item\<lparr>company_name := Some ''B''\<rparr>)) = Some [''A'', ''B'']
   \<and> current_company_index (track_processed_company (after_first_item\<lparr>download_success := Some False\<rparr>)) = Some 2"
  using track_processed_company_step[of after_first_item]
  by (simp add: after_first_item_def track_processed_company_def get_or_def Let_def)

section \<open>Properties of the URL choice\<close>


lemma domain_loop_eq:
  "domain_loop ds url best = (if list_ex (\<lambda>d. contains (lower url) d) ds then url else best)"
  by (induction ds) auto

lemma url_loop_last: "url_loop urls best = last (best # filter is_preferred urls)"
  by (induction urls arbitrary: best) (auto simp: domain_loop_eq is_preferred_def)

lemma example_investor_preferred: "is_preferred ''https://investor.acme.com/annual.pdf''"
  by (simp add: is_preferred_def preferred_domains_def text_eval)

lemma example_sec_preferred: "is_preferred ''https://www.sec.gov/acme-10k.pdf''"
  by (simp add: is_preferred_def preferred_domains_def text_eval)

text \<open>
  C6: among several candidates the choice is the last one, in candidate order, that
  contains a preferred domain, and the first candidate when none does: the
  \<^verbatim>\<open>break\<close> leaves the loop over the domains only, so a later preferred candidate
  replaces an earlier one.
\<close>


theorem choose_best_url_last:
  "choose_best_url (first # others) = last (first # filter is_preferred (first # others))"
  by (simp add: url_loop_last)

theorem choose_best_url_last_witness:
  "choose_best_url [''https://investor.acme.com/annual.pdf'', ''https://www.sec.gov/acme-10k.pdf'']
     = ''https://www.sec.gov/acme-10k.pdf''
   \<and> filter is_preferred [''https://investor.acme.com/annual.pdf'', ''https://www.sec.gov/acme-10k.pdf'']
     = [''https://investor.acme.com/annual.pdf'', ''https://www.sec.gov/acme-10k.pdf'']"
  using choose_best_url_last[of "''https://investor.acme.com/annual.pdf''" "[''https://www.sec.gov/acme-10k.pdf'']"]
  by (simp add: example_investor_preferred example_sec_preferred)

section \<open>Properties of the message-envelope parser\<close>




lemma strip_Nil [simp]: "strip [] = []"
  by (simp add: strip_def lstrip_by_def rstrip_by_def)




lemma greedy_close_eq:
  "greedy_close cs = (if CHR ''}'' \<in> set cs then Some (rev (dropWhile (\<lambda>c. c \<noteq> CHR ''}'') (rev cs))) else None)"
proof (induction cs)
  case Nil
  then show ?case by simp
next
  case (Cons c cs)
  show ?case
  proof (cases "CHR ''}'' \<in> set cs")
    case True
    then have "dropWhile (\<lambda>c. c \<noteq> CHR ''}'') (rev cs @ [c]) = dropWhile (\<lambda>c. c \<noteq> CHR ''}'') (rev cs) @ [c]"
      by (intro dropWhile_append1[of "CHR ''}''"]) auto
    with True Cons show ?thesis by simp
  next
    case False
    then have "dropWhile (\<lambda>c. c \<noteq> CHR ''}'') (rev cs @ [c]) = dropWhile (\<lambda>c. c \<noteq> CHR ''}'') [c]"
      by (intro dropWhile_append2) auto
    with False Cons show ?thesis by auto
  qed
qed

lemma re_search_object_no_close: "CHR ''}'' \<notin> set s \<Longrightarrow> re_search_object s = None"
  by (induction s) (auto simp: greedy_close_eq split: option.splits)

lemma re_search_object_first_to_last:
  "re_search_object s =
     (case dropWhile (\<lambda>c. c \<noteq> CHR ''{'') s of
        [] \<Rightarrow> None
      | c # cs \<Rightarrow> if CHR ''}'' \<in> set cs then Some (c # rev (dropWhile (\<lambda>c. c \<noteq> CHR ''}'') (rev cs))) else None)"
proof (induction s)
  case Nil
  then show ?case by simp
next
  case (Cons a s)
  show ?case
  proof (cases "a = CHR ''{''")
    case True
    then show ?thesis
      by (simp add: greedy_close_eq re_search_object_no_close)
  next
    case False
    then show ?thesis using Cons by simp
  qed
qed

lemma greedy_close_append_tail:
  "\<forall>c\<in>set tail. c \<noteq> CHR ''}'' \<Longrightarrow> greedy_close (cs @ tail) = greedy_close cs"
proof (induction cs)
  case Nil
  then show ?case by (auto simp: greedy_close_eq)
next
  case (Cons c cs)
  then show ?case by simp
qed

lemma re_search_object_append_tail:
  assumes "\<forall>c\<in>set tail. \<not> brace c"
  shows "re_search_object (s @ tail) = re_search_object s"
proof -
  have t: "\<forall>c\<in>set tail. c \<noteq> CHR ''}''" using assms by (auto simp: brace_def)
  have none: "re_search_object tail = None"
    by (rule re_search_object_no_close) (use t in auto)
  show ?thesis
    by (induction s) (auto simp: none greedy_close_append_tail[OF t] split: option.splits)
qed

lemma re_search_object_append_head:
  assumes "\<forall>c\<in>set pre. \<not> brace c"
  shows "re_search_object (pre @ s) = re_search_object s"
  using assms by (induction pre) (auto simp: brace_def)

lemma re_search_object_lstrip:
  assumes "\<And>c. p c \<Longrightarrow> \<not> brace c"
  shows "re_search_object (lstrip_by p s) = re_search_object s"
proof -
  have "re_search_object (takeWhile p s @ dropWhile p s) = re_search_object (dropWhile p s)"
    by (rule re_search_object_append_head) (auto dest: set_takeWhileD assms)
  then show ?thesis by (simp add: lstrip_by_def)
qed

lemma re_search_object_rstrip:
  assumes "\<And>c. p c \<Longrightarrow> \<not> brace c"
  shows "re_search_object (rstrip_by p s) = re_search_object s"
proof -
  have split: "s = rev (dropWhile p (rev s)) @ rev (takeWhile p (rev s))"
    by (metis rev_append rev_rev_ident takeWhile_dropWhile_id)
  have "re_search_object (rev (dropWhile p (rev s)) @ rev (takeWhile p (rev s)))
          = re_search_object (rev (dropWhile p (rev s)))"
    by (rule re_search_object_append_tail) (auto dest: set_takeWhileD assms)
  with split show ?thesis by (simp add: rstrip_by_def)
qed

lemma is_space_not_brace: "is_space c \<Longrightarrow> \<not> brace c"
  by (auto simp: is_space_def brace_def code_def)

lemma re_search_object_strip: "re_search_object (strip s) = re_search_object s"
  by (simp add: strip_def re_search_object_rstrip re_search_object_lstrip is_space_not_brace)

lemma re_search_object_fences:
  "re_search_object (strip (rstrip_chars ''```'' (lstrip_chars ''```json'' (strip part)))) = re_search_object part"
proof -
  have a: "\<And>c. c \<in> set ''```json'' \<Longrightarrow> \<not> brace c" by (auto simp: brace_def)
  have b: "\<And>c. c \<in> set ''```'' \<Longrightarrow> \<not> brace c" by (auto simp: brace_def)
  show ?thesis
    unfolding re_search_object_strip rstrip_chars_def lstrip_chars_def
    by (simp only: re_search_object_rstrip[of "\<lambda>c. c \<in> set ''```''", OF b]
        re_search_object_lstrip[of "\<lambda>c. c \<in> set ''```json''", OF a] re_search_object_strip)
qed

lemma try_part_server_agent: "try_part_server loads part = try_part_agent loads part"
  by (simp add: try_part_server_def try_part_agent_def Let_def re_search_object_fences)

lemma scenario_split:
  \<open>split_text a2ui_delimiter ''---a2ui_JSON---{bad json---a2ui_JSON---{"k":1}---a2ui_JSON---''
     = [[], ''{bad json'', ''{"k":1}'', []]\<close>
  by code_simp

lemma scenario_strips: \<open>strip ''{bad json'' = ''{bad json''\<close> \<open>strip ''{"k":1}'' = ''{"k":1}''\<close>
  by (simp_all add: text_eval)



text \<open>
  C4, as stated, fails: the part \<^verbatim>\<open>{"a":1} {"b":2}\<close> holds the balanced object
  \<^verbatim>\<open>{"a":1}\<close>, which decodes, but the search takes the text up to the last closing
  brace, which does not, and no message is returned. The delimiter is the fixed token
  \<^verbatim>\<open>---a2ui_JSON---\<close>, so the blob delimited by \<^verbatim>\<open>---SEP---\<close> is one part and yields no
  message either.
\<close>


theorem envelope_extraction_counterexample:
  \<open>re_search_object ''{"a":1} {"b":2}'' = Some ''{"a":1} {"b":2}''
   \<and> described_first_balanced ''{"a":1} {"b":2}'' = Some ''{"a":1}''
   \<and> json_loads ''{"a":1}'' = Some (JObj [(''a'', JInt 1)])
   \<and> extract_a2ui_messages json_loads ''{"a":1} {"b":2}'' = []
   \<and> extract_a2ui_messages json_loads ''---SEP---{bad json---SEP---{"k":1}---SEP---'' = []\<close>
  by code_simp

text \<open>
  C4, amended: for every part, the text that is strictly parsed runs from the first
  opening brace to the last closing brace after it; braces are not matched. Removing the
  code-fence characters first, as a2a\_server.py does, changes nothing. The blob
  \<^verbatim>\<open>---a2ui_JSON---{bad json---a2ui_JSON---{"k":1}---a2ui_JSON---\<close> yields exactly one
  message, \<^verbatim>\<open>{"k":1}\<close>, with every decoder that decodes that object.
\<close>


theorem envelope_extraction:
  \<open>re_search_object part =
     (case dropWhile (\<lambda>c. c \<noteq> CHR ''{'') part of
        [] \<Rightarrow> None
      | c # cs \<Rightarrow> if CHR ''}'' \<in> set cs then Some (c # rev (dropWhile (\<lambda>c. c \<noteq> CHR ''}'') (rev cs))) else None)
   \<and> try_part_agent loads part =
     (case re_search_object part of
        None \<Rightarrow> None
      | Some json_str \<Rightarrow> (case loads json_str of Some (JObj d) \<Rightarrow> Some (JObj d) | _ \<Rightarrow> None))
   \<and> try_part_server loads part = try_part_agent loads part
   \<and> (loads ''{"k":1}'' = Some (JObj [(''k'', JInt 1)]) \<longrightarrow>
        extract_a2ui_messages loads scenario_text = [JObj [(''k'', JInt 1)]])\<close>
proof -
  have sc: \<open>loads ''{"k":1}'' = Some (JObj [(''k'', JInt 1)]) \<Longrightarrow>
        extract_a2ui_messages loads scenario_text = [JObj [(''k'', JInt 1)]]\<close>
    unfolding extract_a2ui_messages_def scenario_text_def scenario_split
    by (simp add: scenario_strips try_part_agent_def)
  show ?thesis
    using sc re_search_object_first_to_last[of part]
    by (simp add: try_part_server_agent try_part_agent_def)
qed

theorem envelope_extraction_witness:
  \<open>re_search_object ''x {"a":1} {"b":2} y'' = Some ''{"a":1} {"b":2}''
   \<and> try_part_agent json_loads ''x {"a":1} {"b":2} y'' = None
   \<and> try_part_server json_loads ''x {"a":1} {"b":2} y'' = None
   \<and> extract_a2ui_messages json_loads scenario_text = [JObj [(''k'', JInt 1)]]\<close>
proof -
  have h: \<open>json_loads ''{"k":1}'' = Some (JObj [(''k'', JInt 1)])\<close> by code_simp
  have m: \<open>re_search_object ''x {"a":1} {"b":2} y'' = Some ''{"a":1} {"b":2}''\<close> by code_simp
  have t: \<open>try_part_agent json_loads ''x {"a":1} {"b":2} y'' = None\<close> by code_simp
  from envelope_extraction[of \<open>''x {"a":1} {"b":2} y''\<close> json_loads] h m t
  show ?thesis by simp
qed

section \<open>Properties of the fan-in merge\<close>












lemma five: "[0..<5] = [0, 1, 2, 3, 4]"
  by (simp add: upt_rec)





section \<open>Properties of the summary normalizer\<close>

lemma clean_summary_plain: "\<not> prefix ''```'' (strip summary) \<Longrightarrow> clean_summary summary = strip summary"
  by (simp add: clean_summary_def Let_def)

text \<open>
  C8: a final summary that the decoder accepts is stored as a text that decodes to the
  same value. The library enters through three of its properties at this summary: the
  decoder ignores the white space around the text, an accepted text does not begin with a
  code fence, and decoding the encoded value gives the value back.
\<close>


theorem format_final_output_round_trip:
  assumes "final_summary st = Some summary"
    and "loads summary = Some v"
    and "loads (strip summary) = loads summary"
    and "\<not> prefix ''```'' (strip summary)"
    and "loads (dumps v) = Some v"
  shows "\<exists>out. structured_output (format_final_output loads dumps st) = Some out
           \<and> loads out = loads summary"
  using assms
  by (simp add: format_final_output_def get_or_def clean_summary_plain Let_def)

theorem format_final_output_round_trip_witness:
  \<open>\<exists>out. structured_output (format_final_output json_loads json_dumps_indent2
              (empty_session\<lparr>final_summary := Some summary_text\<rparr>)) = Some out
         \<and> json_loads out = Some (JObj [(''company_name'', JStr ''A''), (''revenue'', JArr [JInt 1, JInt 2])])\<close>
proof -
  let ?v = "JObj [(''company_name'', JStr ''A''), (''revenue'', JArr [JInt 1, JInt 2])]"
  have 1: "final_summary (empty_session\<lparr>final_summary := Some summary_text\<rparr>) = Some summary_text"
    by simp
  have 2: "json_loads summary_text = Some ?v" by code_simp
  have 3: "json_loads (strip summary_text) = json_loads summary_text" by code_simp
  have 4: "\<not> prefix ''```'' (strip summary_text)" by code_simp
  have 5: "json_loads (json_dumps_indent2 ?v) = Some ?v" by code_simp
  show ?thesis
    using format_final_output_round_trip[where loads = json_loads and dumps = json_dumps_indent2, OF 1 2 3 4 5]
    by (simp add: 2)
qed

section \<open>Properties of the message handler\<close>

lemma find_query_without_content:
  "list_all part_without_content parts \<Longrightarrow> find_query dumps parts = Inr (JStr [])"
proof (induction parts)
  case Nil
  then show ?case by simp
next
  case (Cons part parts)
  then have p: "part_without_content part" and ih: "find_query dumps parts = Inr (JStr [])"
    by simp_all
  from p obtain entries where f: "part = JObj entries"
    by (cases part) (auto simp: part_without_content_def)
  show ?case
  proof (cases "map_of entries ''kind''")
    case None
    then show ?thesis using f ih by simp
  next
    case (Some kind)
    show ?thesis
    proof (cases "kind = JStr ''data''")
      case True
      then obtain found where "py_in ''userAction'' (case map_of entries ''data'' of None \<Rightarrow> JObj [] | Some d \<Rightarrow> d) = Inr found"
        and "\<not> found"
        using p f Some by (auto simp: part_without_content_def split: sum.splits)
      then show ?thesis using f Some True ih by simp
    next
      case False
      moreover have "kind \<noteq> JStr ''text''"
        using p f Some by (auto simp: part_without_content_def split: if_splits)
      ultimately show ?thesis using f Some ih by simp
    qed
  qed
qed

lemma part_without_content_described:
  assumes "part_without_content part"
  shows "described_without_content part"
proof -
  from assms obtain entries where p: "part = JObj entries"
    by (cases part) (auto simp: part_without_content_def)
  show ?thesis
  proof (cases "map_of entries ''kind''")
    case None
    then show ?thesis using p by (simp add: described_without_content_def)
  next
    case (Some kind)
    have nt: "kind \<noteq> JStr ''text''"
      using assms p Some by (auto simp: part_without_content_def split: if_splits)
    show ?thesis
    proof (cases "kind = JStr ''data''")
      case False
      then show ?thesis using p Some nt by (simp add: described_without_content_def)
    next
      case True
      have q: "py_in ''userAction'' (case map_of entries ''data'' of None \<Rightarrow> JObj [] | Some d \<Rightarrow> d) = Inr False"
        using assms p Some True by (auto simp: part_without_content_def split: sum.splits)
      have "\<not> (case map_of entries ''data'' of None \<Rightarrow> False | Some payload \<Rightarrow> has_user_action_key payload)"
      proof (cases "map_of entries ''data''")
        case None
        then show ?thesis by simp
      next
        case (Some payload)
        then have "py_in ''userAction'' payload = Inr False" using q by simp
        then have "\<not> has_user_action_key payload"
          by (cases payload) (auto simp: has_user_action_key_def)
        then show ?thesis using Some by simp
      qed
      then show ?thesis using p Some nt by (simp add: described_without_content_def)
    qed
  qed
qed

text \<open>
  C10, as stated, fails: a request whose only part is a data part with the payload
  \<^verbatim>\<open>null\<close> has no text part and no payload with the key \<^verbatim>\<open>userAction\<close>, and the handler
  raises \<^verbatim>\<open>TypeError\<close> at the membership test instead of answering; with the payload
  \<^verbatim>\<open>["userAction"]\<close>, a list without keys, the membership test holds and the agent is run.
\<close>

theorem handle_message_counterexample:
  \<open>request_parts request_null_payload = Some [JObj [(''kind'', JStr ''data''), (''data'', JNull)]]
   \<and> described_without_content (JObj [(''kind'', JStr ''data''), (''data'', JNull)])
   \<and> handle_message json_dumps counting_agent ''fresh-id'' False (Some request_null_payload) (0::nat)
       = Inl TypeError
   \<and> request_parts request_list_payload = Some [JObj [(''kind'', JStr ''data''), (''data'', JArr [JStr ''userAction''])]]
   \<and> described_without_content (JObj [(''kind'', JStr ''data''), (''data'', JArr [JStr ''userAction''])])
   \<and> handle_message json_dumps counting_agent ''fresh-id'' False (Some request_list_payload) (0::nat)
       = Inr (AgentReply (JStr ''["userAction"]''), Suc 0)\<close>
  by (simp add: request_parts_def request_null_payload_def request_list_payload_def
      described_without_content_def has_user_action_key_def handle_message_def counting_agent_def
      dump_string_def escape_char_def code_def)

text \<open>
  C10, amended: for a request whose body, \<^verbatim>\<open>params\<close> and \<^verbatim>\<open>message\<close> are objects and
  whose parts are a list of objects, none of kind \<^verbatim>\<open>text\<close> and none of kind \<^verbatim>\<open>data\<close> with
  a payload for which the test \<^verbatim>\<open>"userAction" in data\<close> holds or cannot be made, the answer
  is the JSON-RPC error -32600 under the request's id. The answer is the same for every
  continuation \<open>run_agent\<close> and the server is returned as it was: the agent is not run.
\<close>

theorem handle_message_without_content:
  assumes "request_parts body = Some parts" and "list_all part_without_content parts"
  shows "handle_message dumps run_agent fresh_id a2ui_requested (Some body) srv
           = Inr (RpcError (request_id_of fresh_id body) (- 32600) ''No message content provided'', srv)"
proof -
  have q: "find_query dumps parts = Inr (JStr [])"
    using assms(2) by (rule find_query_without_content)
  show ?thesis
    using assms(1) q
    by (auto simp: handle_message_def request_parts_def request_id_of_def
        split: json.splits option.splits)
qed

theorem handle_message_without_content_witness:
  "handle_message json_dumps counting_agent ''fresh-id'' False (Some request_without_content) (0::nat)
     = Inr (RpcError (JInt 7) (- 32600) ''No message content provided'', 0)"
proof -
  have 1: "request_parts request_without_content
     = Some [JObj [(''kind'', JStr ''file'')],
             JObj [(''kind'', JStr ''data''), (''data'', JObj [(''scroll'', JInt 3)])]]"
    by (simp add: request_parts_def request_without_content_def)
  have 2: "list_all part_without_content
     [JObj [(''kind'', JStr ''file'')],
      JObj [(''kind'', JStr ''data''), (''data'', JObj [(''scroll'', JInt 3)])]]"
    by (simp add: part_without_content_def)
  have 3: "request_id_of ''fresh-id'' request_without_content = JInt 7"
    by (simp add: request_id_of_def request_without_content_def)
  show ?thesis
    using handle_message_without_content[OF 1 2, of json_dumps counting_agent "''fresh-id''" False 0]
    by (simp add: 3)
qed

end
